theory Spec2Isabelle
  imports Complex_Main
begin

section \<open>The measurement model\<close>

text \<open>
  Modelled from the spec: the class \<^verbatim>\<open>MeasurementModel\<close> (file \<^verbatim>\<open>model.py\<close>) is not among
  the sources. The record lists every attribute of \<^verbatim>\<open>self.module.model\<close> that
  \<^verbatim>\<open>controller.py\<close> and \<^verbatim>\<open>view.py\<close> read or write. The class constants \<^verbatim>\<open>FFT_VIEW\<close>,
  \<^verbatim>\<open>TIME_VIEW\<close> and \<^verbatim>\<open>FILE_EXTENSION\<close> are fields whose values are left open, and
  \<^verbatim>\<open>displayed_measurement\<close> is \<open>None\<close> as long as nothing is displayed. The type \<open>'m\<close>
  stands for the \<^verbatim>\<open>Measurement\<close> objects of the spectrometer package; the controller only
  stores them and hands them on.
\<close>

record 'm MeasurementModel =
  FFT_VIEW :: string
  TIME_VIEW :: string
  FILE_EXTENSION :: string
  view_mode :: string
  measurements :: "'m list"
  displayed_measurement :: "'m option"
  frequency_valid :: bool
  averages_valid :: bool
  measurement_frequency :: real
  averages :: int

text \<open>
  Modelled from the spec: \<^verbatim>\<open>MeasurementModel.add_measurement\<close> is not among the sources.
  The measurement is added at the end of the measurement list, so that the last element
  of the list is the one added most recently. Nothing else of the model changes.
\<close>

definition add_measurement :: "'m \<Rightarrow> 'm MeasurementModel \<Rightarrow> 'm MeasurementModel" where
  "add_measurement measurement m = m\<lparr>measurements := measurements m @ [measurement]\<rparr>"

subsection \<open>Switching between time and frequency view\<close>

text \<open>
  \<^verbatim>\<open>MeasurementController.change_view_mode\<close>: one comparison with \<^verbatim>\<open>FFT_VIEW\<close> and one
  assignment to \<^verbatim>\<open>view_mode\<close>.
\<close>

definition change_view_mode :: "'m MeasurementModel \<Rightarrow> 'm MeasurementModel" where
  "change_view_mode m =
     (if view_mode m = FFT_VIEW m
      then m\<lparr>view_mode := TIME_VIEW m\<rparr>
      else m\<lparr>view_mode := FFT_VIEW m\<rparr>)"

text \<open>An example model with the two view modes spelled out, used to run the definitions.\<close>

definition example_model :: "nat MeasurementModel" where
  "example_model =
     \<lparr>FFT_VIEW = ''frequency'', TIME_VIEW = ''time'', FILE_EXTENSION = ''meas'',
      view_mode = ''time'', measurements = [], displayed_measurement = None,
      frequency_valid = False, averages_valid = False,
      measurement_frequency = 100, averages = 1\<rparr>"

section \<open>Saving and loading measurements\<close>

text \<open>
  The exceptions that \<^verbatim>\<open>save_measurement\<close> and \<^verbatim>\<open>load_measurement\<close> can meet.
  \<open>OSError\<close> is raised by \<^verbatim>\<open>open(file_name, "w")\<close> when the file cannot be created,
  \<open>OtherError\<close> stands for any exception the controller has no handler for.
\<close>

datatype error = FileNotFoundError | JSONDecodeError | KeyError | OSError | OtherError string

text \<open>
  \<^verbatim>\<open>Measurement.to_json\<close> and \<^verbatim>\<open>Measurement.from_json\<close> belong to the spectrometer package,
  \<^verbatim>\<open>json.dump\<close> and \<^verbatim>\<open>json.load\<close> to the Python library. The controller only calls them,
  so they are parameters: \<open>'j\<close> is the type of JSON values, a file holds a string.
  Each of the four can raise. \<^verbatim>\<open>json.dump\<close> writes to the open file piece by piece, so it
  gives the text it has written and the exception that stopped it, if one did.
\<close>

record ('m, 'j) codec =
  to_json :: "'m \<Rightarrow> error + 'j"
  from_json :: "'j \<Rightarrow> error + 'm"
  json_dump :: "'j \<Rightarrow> string \<times> error option"
  json_load :: "string \<Rightarrow> error + 'j"

text \<open>
  What the controller acts on: the model, the signals sent through
  \<^verbatim>\<open>self.module.nqrduck_signal.emit(key, value)\<close> (oldest first), and the file system, a map
  from paths to contents together with the paths that can be opened for writing. A path
  outside the map is a file that does not exist; a file in the map can be read.
\<close>

record 'm world =
  model :: "'m MeasurementModel"
  nqrduck_signal :: "(string \<times> string list) list"
  files :: "string \<rightharpoonup> string"
  creatable :: "string \<Rightarrow> bool"

definition emit :: "string \<Rightarrow> string list \<Rightarrow> 'm world \<Rightarrow> 'm world" where
  "emit key val w = w\<lparr>nqrduck_signal := nqrduck_signal w @ [(key, val)]\<rparr>"

text \<open>
  \<^verbatim>\<open>save_measurement\<close>: return at once on an empty measurement list. Otherwise call
  \<^verbatim>\<open>to_json\<close> on \<^verbatim>\<open>measurements[-1]\<close>, which may raise before any file is touched; then
  \<^verbatim>\<open>open(file_name, "w")\<close>, which may raise and otherwise empties the file; then
  \<^verbatim>\<open>json.dump\<close>, after which the file holds whatever was written, also when
  \<^verbatim>\<open>json.dump\<close> raised on the way. The function has no handler. The result pairs the
  exception that left the function, if any, with the world afterwards.
\<close>

definition save_measurement ::
  "('m, 'j) codec \<Rightarrow> string \<Rightarrow> 'm world \<Rightarrow> error option \<times> 'm world" where
  "save_measurement c file_name w =
     (if measurements (model w) = [] then (None, w)
      else
        (case to_json c (last (measurements (model w))) of
           Inl e \<Rightarrow> (Some e, w)
         | Inr measurement \<Rightarrow>
             if \<not> creatable w file_name then (Some OSError, w)
             else
               (case json_dump c measurement of
                  (text, raised) \<Rightarrow> (raised, w\<lparr>files := (files w)(file_name \<mapsto> text)\<rparr>))))"

text \<open>
  What it means that the file written holds the JSON serialisation of the last
  measurement: \<^verbatim>\<open>to_json\<close> and \<^verbatim>\<open>json.dump\<close> have run to their end on it, and the file
  holds the whole text of \<^verbatim>\<open>json.dump\<close> after \<open>save_measurement\<close>.
\<close>

definition holds_serialization_of_last ::
  "('m, 'j) codec \<Rightarrow> string \<Rightarrow> 'm world \<Rightarrow> bool" where
  "holds_serialization_of_last c file_name w =
     (case to_json c (last (measurements (model w))) of
        Inl e \<Rightarrow> False
      | Inr j \<Rightarrow>
          (case json_dump c j of
             (text, Some e) \<Rightarrow> False
           | (text, None) \<Rightarrow>
               files (snd (save_measurement c file_name w)) file_name = Some text))"

text \<open>
  The statements of \<^verbatim>\<open>load_measurement\<close> up to and including \<^verbatim>\<open>Measurement.from_json\<close>:
  open the file, decode it, build the measurement. Nothing is assigned before all three
  have succeeded.
\<close>

definition read_measurement :: "('m, 'j) codec \<Rightarrow> string \<Rightarrow> 'm world \<Rightarrow> error + 'm" where
  "read_measurement c file_name w =
     (case files w file_name of
        None \<Rightarrow> Inl FileNotFoundError
      | Some text \<Rightarrow>
          (case json_load c text of
             Inl e \<Rightarrow> Inl e
           | Inr j \<Rightarrow> from_json c j))"

text \<open>
  \<^verbatim>\<open>load_measurement\<close>: the \<^verbatim>\<open>try\<close> block followed by its two handlers. An exception
  that neither handler names leaves the function.
\<close>

definition load_measurement ::
  "('m, 'j) codec \<Rightarrow> string \<Rightarrow> 'm world \<Rightarrow> error option \<times> 'm world" where
  "load_measurement c file_name w =
     (case read_measurement c file_name w of
        Inr measurement \<Rightarrow>
          (None, w\<lparr>model := (add_measurement measurement (model w))
                              \<lparr>displayed_measurement := Some measurement\<rparr>\<rparr>)
      | Inl FileNotFoundError \<Rightarrow>
          (None, emit ''notification'' [''Error'', ''File not found.''] w)
      | Inl JSONDecodeError \<Rightarrow>
          (None, emit ''notification'' [''Error'', ''File is not a valid measurement file.''] w)
      | Inl KeyError \<Rightarrow>
          (None, emit ''notification'' [''Error'', ''File is not a valid measurement file.''] w)
      | Inl e \<Rightarrow> (Some e, w))"

text \<open>
  Saving and then loading the same file, the two calls that a round trip consists of.
  The second call is made only when the first one returned.
\<close>

definition save_then_load ::
  "('m, 'j) codec \<Rightarrow> string \<Rightarrow> 'm world \<Rightarrow> error option \<times> 'm world" where
  "save_then_load c file_name w =
     (case save_measurement c file_name w of
        (Some e, w') \<Rightarrow> (Some e, w')
      | (None, w') \<Rightarrow> load_measurement c file_name w')"

text \<open>
  Modelled from the spec: the class \<^verbatim>\<open>Measurement\<close> of the spectrometer package is not among
  the sources. A measurement is an ordered sequence of (time, complex amplitude) samples
  and a derived ordered sequence of (frequency, complex amplitude) samples; the two
  fields read them off a measurement of type \<open>'m\<close>.
\<close>

record 'm samples =
  time_domain :: "'m \<Rightarrow> (real \<times> complex) list"
  frequency_domain :: "'m \<Rightarrow> (real \<times> complex) list"

text \<open>
  Modelled from the spec: sample values are reproduced within floating-point tolerance.
  Two sample sequences agree within the tolerance \<open>eps\<close> when they have the same length
  and, position by position, abscissa and amplitude differ by at most \<open>eps\<close>.
\<close>

definition close_samples ::
  "real \<Rightarrow> (real \<times> complex) list \<Rightarrow> (real \<times> complex) list \<Rightarrow> bool" where
  "close_samples eps xs ys =
     list_all2 (\<lambda>(t, a) (u, b). \<bar>t - u\<bar> \<le> eps \<and> cmod (a - b) \<le> eps) xs ys"

definition within_tolerance :: "real \<Rightarrow> 'm samples \<Rightarrow> 'm \<Rightarrow> 'm \<Rightarrow> bool" where
  "within_tolerance eps s m m' =
     (close_samples eps (time_domain s m) (time_domain s m') \<and>
      close_samples eps (frequency_domain s m) (frequency_domain s m'))"

text \<open>
  Modelled from the spec: the round-trip invariant of the JSON form of a measurement.
  The serialisation reproduces \<open>m\<close> when \<^verbatim>\<open>to_json\<close>, \<^verbatim>\<open>json.dump\<close>, \<^verbatim>\<open>json.load\<close> and
  \<^verbatim>\<open>from_json\<close>, one after the other, raise nothing and give a measurement whose samples
  agree with those of \<open>m\<close> within the tolerance.
\<close>

definition reproduces :: "real \<Rightarrow> 'm samples \<Rightarrow> ('m, 'j) codec \<Rightarrow> 'm \<Rightarrow> bool" where
  "reproduces eps s c m =
     (case to_json c m of
        Inl e \<Rightarrow> False
      | Inr j \<Rightarrow>
          (case json_dump c j of
             (text, Some e) \<Rightarrow> False
           | (text, None) \<Rightarrow>
               (case json_load c text of
                  Inl e \<Rightarrow> False
                | Inr j' \<Rightarrow>
                    (case from_json c j' of
                       Inl e \<Rightarrow> False
                     | Inr m' \<Rightarrow> within_tolerance eps s m m'))))"

text \<open>
  An example codec on measurements that are natural numbers: a measurement \<open>n\<close> is saved
  as \<open>n\<close> characters; the empty file does not decode, and the JSON value \<open>1\<close> lacks a key.
  The measurement \<open>n\<close> has the one sample \<open>n\<close> in either domain.
\<close>

definition example_codec :: "(nat, nat) codec" where
  "example_codec =
     \<lparr>to_json = (\<lambda>n. Inr n),
      from_json = (\<lambda>j. if j = 1 then Inl KeyError else Inr j),
      json_dump = (\<lambda>j. (replicate j CHR ''x'', None)),
      json_load = (\<lambda>t. if t = [] then Inl JSONDecodeError else Inr (length t))\<rparr>"

definition example_samples :: "nat samples" where
  "example_samples =
     \<lparr>time_domain = (\<lambda>n. [(0, of_nat n)]), frequency_domain = (\<lambda>n. [(0, of_nat n)])\<rparr>"

text \<open>
  The same codec, except that \<^verbatim>\<open>json.dump\<close> raises after the first character.
\<close>

definition failing_codec :: "(nat, nat) codec" where
  "failing_codec =
     example_codec\<lparr>json_dump :=
       (\<lambda>j. (take 1 (replicate j CHR ''x''), Some (OtherError ''TypeError'')))\<rparr>"

definition example_world :: "nat world" where
  "example_world =
     \<lparr>model = example_model\<lparr>measurements := [5, 3], displayed_measurement := Some 5\<rparr>,
      nqrduck_signal = [],
      files = [''a.meas'' \<mapsto> ''xx'', ''b.meas'' \<mapsto> ''x'', ''c.meas'' \<mapsto> []],
      creatable = (\<lambda>p. p \<noteq> ''/'')\<rparr>"

section \<open>Functions for apodization\<close>

text \<open>
  \<^verbatim>\<open>signalprocessing_options.py\<close> builds its functions from a string that
  \<^verbatim>\<open>sympy.sympify\<close> parses. The datatype has one constructor for each operation that
  occurs in the two strings of the file, \<^verbatim>\<open>exp( -x / T2star )\<close> and
  \<^verbatim>\<open>1 / (1 + (x / T2star)^2)\<close>; \<^verbatim>\<open>sympify\<close> reads \<^verbatim>\<open>^\<close> as a power.
\<close>

datatype sympy_expr =
    Symbol string
  | Integer int
  | Neg sympy_expr
  | Add sympy_expr sympy_expr
  | Div sympy_expr sympy_expr
  | Pow sympy_expr nat
  | Exp sympy_expr

text \<open>The symbols that occur in an expression (\<^verbatim>\<open>expr.free_symbols\<close>).\<close>

fun free_symbols :: "sympy_expr \<Rightarrow> string set" where
  "free_symbols (Symbol s) = {s}"
| "free_symbols (Integer n) = {}"
| "free_symbols (Neg a) = free_symbols a"
| "free_symbols (Add a b) = free_symbols a \<union> free_symbols b"
| "free_symbols (Div a b) = free_symbols a \<union> free_symbols b"
| "free_symbols (Pow a n) = free_symbols a"
| "free_symbols (Exp a) = free_symbols a"

text \<open>
  The value of an expression once every symbol is bound to a number. An unbound symbol
  and a division by zero give no number.
\<close>

fun evalf :: "(string \<rightharpoonup> real) \<Rightarrow> sympy_expr \<Rightarrow> real option" where
  "evalf env (Symbol s) = env s"
| "evalf env (Integer n) = Some (of_int n)"
| "evalf env (Neg a) = map_option uminus (evalf env a)"
| "evalf env (Add a b) =
     (case (evalf env a, evalf env b) of
        (Some u, Some v) \<Rightarrow> Some (u + v)
      | _ \<Rightarrow> None)"
| "evalf env (Div a b) =
     (case (evalf env a, evalf env b) of
        (Some u, Some v) \<Rightarrow> if v = 0 then None else Some (u / v)
      | _ \<Rightarrow> None)"
| "evalf env (Pow a n) = map_option (\<lambda>u. u ^ n) (evalf env a)"
| "evalf env (Exp a) = map_option exp (evalf env a)"

text \<open>
  Modelled from the spec: the class \<^verbatim>\<open>Function.Parameter\<close> of the host package is not among
  the sources. The constructor call \<^verbatim>\<open>Function.Parameter(name, symbol, value)\<close> of
  \<^verbatim>\<open>signalprocessing_options.py\<close> gives its three fields: a display name, a symbol and a
  number.
\<close>

record Parameter =
  parameter_name :: string
  symbol :: string
  default_value :: real

text \<open>
  Modelled from the spec: the class \<^verbatim>\<open>Function\<close> of the host package is not among the
  sources. A function is a symbolic expression over one free variable plus named numeric
  parameters, evaluable over an interval; \<^verbatim>\<open>signalprocessing_options.py\<close> sets the
  attributes \<^verbatim>\<open>name\<close>, \<^verbatim>\<open>start_x\<close> and \<^verbatim>\<open>end_x\<close> and hands the expression to the
  constructor.
\<close>

record Function =
  name :: string
  expr :: sympy_expr
  start_x :: real
  end_x :: real
  parameters :: "Parameter list"

text \<open>
  Modelled from the spec: \<^verbatim>\<open>Function.add_parameter\<close> is not among the sources. It puts the
  parameter at the end of the parameter list of the function.
\<close>

definition add_parameter :: "Parameter \<Rightarrow> Function \<Rightarrow> Function" where
  "add_parameter p f = f\<lparr>parameters := parameters f @ [p]\<rparr>"

text \<open>
  Modelled from the spec: the evaluation of a \<^verbatim>\<open>Function\<close> is not among the sources.
  Evaluating at a point binds the free variable \<open>x\<close> to the point and every parameter
  symbol to the value of its parameter.
\<close>

definition bindings :: "Parameter list \<Rightarrow> real \<Rightarrow> (string \<rightharpoonup> real)" where
  "bindings ps x = (map_of (map (\<lambda>p. (symbol p, default_value p)) ps))(''x'' \<mapsto> x)"

text \<open>
  Modelled from the spec: the value of a function at a point of its interval, if it has
  one.
\<close>

definition evaluate :: "Function \<Rightarrow> real \<Rightarrow> real option" where
  "evaluate f x = evalf (bindings (parameters f) x) (expr f)"

text \<open>
  \<^verbatim>\<open>FIDFunction.__init__\<close> and \<^verbatim>\<open>LorentzianFunction.__init__\<close>: the expression, the two
  bounds, then one call of \<^verbatim>\<open>add_parameter\<close>.
\<close>

definition FIDFunction :: Function where
  "FIDFunction =
     add_parameter
       \<lparr>parameter_name = ''T2star (microseconds)'', symbol = ''T2star'', default_value = 10\<rparr>
       \<lparr>name = ''FID'',
        expr = Exp (Div (Neg (Symbol ''x'')) (Symbol ''T2star'')),
        start_x = 0, end_x = 30, parameters = []\<rparr>"

definition LorentzianFunction :: Function where
  "LorentzianFunction =
     add_parameter
       \<lparr>parameter_name = ''T2star (microseconds)'', symbol = ''T2star'', default_value = 10\<rparr>
       \<lparr>name = ''Lorentzian'',
        expr = Div (Integer 1)
                 (Add (Integer 1) (Pow (Div (Symbol ''x'') (Symbol ''T2star'')) 2)),
        start_x = 0, end_x = 30, parameters = []\<rparr>"

text \<open>
  \<^verbatim>\<open>Apodization.__init__\<close> offers three functions and preselects the one at index 0.
  \<^verbatim>\<open>GaussianFunction\<close> and \<^verbatim>\<open>CustomFunction\<close> are classes of the host package, so they
  are parameters here.
\<close>

definition Apodization_functions :: "Function \<Rightarrow> Function \<Rightarrow> Function list" where
  "Apodization_functions GaussianFunction CustomFunction =
     [FIDFunction, GaussianFunction, CustomFunction]"

definition default_function :: nat where
  "default_function = 0"

text \<open>
  Two examples of what the other two entries of the dialog can hold: a Gaussian window
  and the user-defined expression \<^verbatim>\<open>1 / x\<close>.
\<close>

definition example_gaussian :: Function where
  "example_gaussian =
     \<lparr>name = ''Gaussian'',
      expr = Exp (Neg (Pow (Div (Symbol ''x'') (Symbol ''sigma'')) 2)),
      start_x = 0, end_x = 30,
      parameters = [\<lparr>parameter_name = ''Sigma'', symbol = ''sigma'', default_value = 1\<rparr>]\<rparr>"

definition example_custom :: Function where
  "example_custom =
     \<lparr>name = ''Custom'',
      expr = Div (Integer 1) (Symbol ''x''),
      start_x = 0, end_x = 30, parameters = []\<rparr>"

section \<open>Properties of the view mode\<close>

text \<open>
  Claim C9. Every call of \<open>change_view_mode\<close> maps \<open>FFT_VIEW\<close> to \<open>TIME_VIEW\<close> and any other
  mode to \<open>FFT_VIEW\<close>; the only attribute of the model that changes is \<open>view_mode\<close>; and
  from a mode that is \<open>FFT_VIEW\<close> or \<open>TIME_VIEW\<close>, two calls give the model back as it was.
\<close>

theorem change_view_mode_involution:
  "(view_mode m = FFT_VIEW m \<longrightarrow> view_mode (change_view_mode m) = TIME_VIEW m) \<and>
   (view_mode m \<noteq> FFT_VIEW m \<longrightarrow> view_mode (change_view_mode m) = FFT_VIEW m) \<and>
   change_view_mode m = m\<lparr>view_mode := view_mode (change_view_mode m)\<rparr> \<and>
   (view_mode m \<in> {FFT_VIEW m, TIME_VIEW m} \<longrightarrow> change_view_mode (change_view_mode m) = m)"
  by (auto simp: change_view_mode_def)

theorem change_view_mode_involution_witness:
  "view_mode example_model \<in> {FFT_VIEW example_model, TIME_VIEW example_model} \<and>
   view_mode example_model \<noteq> FFT_VIEW example_model \<and>
   view_mode (change_view_mode example_model) = ''frequency'' \<and>
   view_mode (change_view_mode (change_view_mode example_model)) = ''time'' \<and>
   change_view_mode (change_view_mode example_model) = example_model"
  using change_view_mode_involution [of example_model]
  by (simp add: example_model_def change_view_mode_def)

section \<open>Properties of saving and loading\<close>

text \<open>
  Claim C8, as stated, fails where \<^verbatim>\<open>json.dump\<close> raises: with a non-empty measurement
  list and a file that can be opened, the exception leaves \<open>save_measurement\<close> and the
  file holds only the text written before it, not the serialisation of the last
  measurement.
\<close>

theorem save_measurement_partial_file_counterexample:
  "measurements (model example_world) \<noteq> [] \<and>
   creatable example_world ''out.meas'' \<and>
   to_json failing_codec (last (measurements (model example_world))) = Inr 3 \<and>
   json_dump failing_codec 3 = (''x'', Some (OtherError ''TypeError'')) \<and>
   save_measurement failing_codec ''out.meas'' example_world =
     (Some (OtherError ''TypeError''),
      example_world\<lparr>files := (files example_world)(''out.meas'' \<mapsto> ''x'')\<rparr>) \<and>
   \<not> holds_serialization_of_last failing_codec ''out.meas'' example_world"
  by (simp add: save_measurement_def holds_serialization_of_last_def failing_codec_def
        example_codec_def example_world_def example_model_def numeral_3_eq_3)

text \<open>
  Claim C8, amended. With an empty measurement list \<open>save_measurement\<close> returns and
  leaves everything, the file system included, as it was. With a non-empty list, when
  \<^verbatim>\<open>to_json\<close>, \<^verbatim>\<open>open\<close> and \<^verbatim>\<open>json.dump\<close> raise nothing, the function returns and the file
  holds the JSON serialisation of the last measurement of the list. When \<^verbatim>\<open>to_json\<close>
  raises, or the file cannot be opened for writing, the exception leaves the function and
  nothing is written; when \<^verbatim>\<open>json.dump\<close> raises, the exception leaves the function and
  the file holds the text written so far. Which measurement is displayed has no
  influence on the outcome or on what is written.
\<close>

theorem save_measurement_last:
  "(measurements (model w) = [] \<longrightarrow> save_measurement c file_name w = (None, w)) \<and>
   (\<forall>j text.
      measurements (model w) \<noteq> [] \<and>
      to_json c (last (measurements (model w))) = Inr j \<and>
      creatable w file_name \<and> json_dump c j = (text, None) \<longrightarrow>
      save_measurement c file_name w =
        (None, w\<lparr>files := (files w)(file_name \<mapsto> text)\<rparr>) \<and>
      holds_serialization_of_last c file_name w) \<and>
   (\<forall>e. measurements (model w) \<noteq> [] \<and>
      to_json c (last (measurements (model w))) = Inl e \<longrightarrow>
      save_measurement c file_name w = (Some e, w)) \<and>
   (\<forall>j. measurements (model w) \<noteq> [] \<and>
      to_json c (last (measurements (model w))) = Inr j \<and> \<not> creatable w file_name \<longrightarrow>
      save_measurement c file_name w = (Some OSError, w)) \<and>
   (\<forall>j text e.
      measurements (model w) \<noteq> [] \<and>
      to_json c (last (measurements (model w))) = Inr j \<and>
      creatable w file_name \<and> json_dump c j = (text, Some e) \<longrightarrow>
      save_measurement c file_name w =
        (Some e, w\<lparr>files := (files w)(file_name \<mapsto> text)\<rparr>)) \<and>
   fst (save_measurement c file_name
          (w\<lparr>model := (model w)\<lparr>displayed_measurement := d\<rparr>\<rparr>)) =
   fst (save_measurement c file_name w) \<and>
   files (snd (save_measurement c file_name
                 (w\<lparr>model := (model w)\<lparr>displayed_measurement := d\<rparr>\<rparr>))) =
   files (snd (save_measurement c file_name w))"
  by (auto simp: save_measurement_def holds_serialization_of_last_def
           split: sum.splits prod.splits)

theorem save_measurement_last_witness:
  "measurements (model example_world) \<noteq> [] \<and> creatable example_world ''out.meas'' \<and>
   to_json example_codec (last (measurements (model example_world))) = Inr 3 \<and>
   json_dump example_codec 3 = (''xxx'', None) \<and>
   displayed_measurement (model example_world) = Some 5 \<and>
   save_measurement example_codec ''out.meas'' example_world =
     (None, example_world\<lparr>files := (files example_world)(''out.meas'' \<mapsto> ''xxx'')\<rparr>) \<and>
   holds_serialization_of_last example_codec ''out.meas'' example_world \<and>
   measurements (model (example_world\<lparr>model := example_model\<rparr>)) = [] \<and>
   save_measurement example_codec ''out.meas'' (example_world\<lparr>model := example_model\<rparr>) =
     (None, example_world\<lparr>model := example_model\<rparr>) \<and>
   \<not> creatable example_world ''/'' \<and>
   save_measurement example_codec ''/'' example_world = (Some OSError, example_world) \<and>
   json_dump failing_codec 3 = (''x'', Some (OtherError ''TypeError'')) \<and>
   save_measurement failing_codec ''out.meas'' example_world =
     (Some (OtherError ''TypeError''),
      example_world\<lparr>files := (files example_world)(''out.meas'' \<mapsto> ''x'')\<rparr>)"
  using save_measurement_last [of example_world example_codec "''out.meas''"]
        save_measurement_last [of "example_world\<lparr>model := example_model\<rparr>" example_codec "''out.meas''"]
        save_measurement_last [of example_world example_codec "''/''"]
        save_measurement_last [of example_world failing_codec "''out.meas''"]
  by (simp add: example_world_def example_codec_def failing_codec_def example_model_def
        numeral_3_eq_3)

text \<open>
  Claim C1, as stated, fails for a measurement that is not the last of the list:
  \<open>save_measurement\<close> writes \<^verbatim>\<open>measurements[-1]\<close>, so with the measurements 5 and 3 in the
  model and a serialisation that reproduces every measurement exactly, saving and loading
  gives 3, whose samples are not those of 5.
\<close>

theorem round_trip_not_last_counterexample:
  "5 \<in> set (measurements (model example_world)) \<and>
   reproduces (1 / 1000) example_samples example_codec 5 \<and>
   creatable example_world ''out.meas'' \<and>
   fst (save_then_load example_codec ''out.meas'' example_world) = None \<and>
   displayed_measurement (model (snd (save_then_load example_codec ''out.meas'' example_world)))
     = Some 3 \<and>
   \<not> within_tolerance (1 / 1000) example_samples 5 3"
  by (simp add: save_then_load_def save_measurement_def load_measurement_def
        read_measurement_def add_measurement_def reproduces_def within_tolerance_def
        close_samples_def example_samples_def example_codec_def example_world_def
        example_model_def numeral_3_eq_3 eval_nat_numeral)

text \<open>
  Claim C1, amended. For the last measurement \<open>m\<close> of a non-empty measurement list: when
  the file can be opened for writing and the serialisation reproduces \<open>m\<close> within the
  tolerance, saving to a file and then loading that file raises nothing, and the
  measurement that is then displayed, and added at the end of the list, has time-domain
  and frequency-domain samples that agree with those of \<open>m\<close> within the tolerance.
\<close>

theorem save_then_load_last_within_tolerance:
  "measurements (model w) \<noteq> [] \<and> creatable w file_name \<and>
   reproduces eps s c (last (measurements (model w))) \<longrightarrow>
   fst (save_then_load c file_name w) = None \<and>
   (\<exists>m'. displayed_measurement (model (snd (save_then_load c file_name w))) = Some m' \<and>
         measurements (model (snd (save_then_load c file_name w))) =
           measurements (model w) @ [m'] \<and>
         within_tolerance eps s (last (measurements (model w))) m')"
  by (auto simp: save_then_load_def save_measurement_def load_measurement_def
        read_measurement_def add_measurement_def reproduces_def
        split: sum.splits prod.splits option.splits)

theorem save_then_load_last_within_tolerance_witness:
  "measurements (model example_world) \<noteq> [] \<and> creatable example_world ''out.meas'' \<and>
   reproduces (1 / 1000) example_samples example_codec (last (measurements (model example_world))) \<and>
   last (measurements (model example_world)) = 3 \<and>
   fst (save_then_load example_codec ''out.meas'' example_world) = None \<and>
   displayed_measurement (model (snd (save_then_load example_codec ''out.meas'' example_world)))
     = Some 3 \<and>
   measurements (model (snd (save_then_load example_codec ''out.meas'' example_world))) = [5, 3, 3] \<and>
   within_tolerance (1 / 1000) example_samples 3 3"
  using save_then_load_last_within_tolerance
          [of example_world "''out.meas''" "1 / 1000" example_samples example_codec]
  by (simp add: save_then_load_def save_measurement_def load_measurement_def
        read_measurement_def add_measurement_def reproduces_def within_tolerance_def
        close_samples_def example_samples_def example_codec_def example_world_def
        example_model_def numeral_3_eq_3)

text \<open>
  Claim C5. When the file does not exist, or its contents do not decode, or the decoded
  value lacks a key, \<open>load_measurement\<close> leaves the model as it was and sends one
  \<open>notification\<close> signal that starts with \<open>Error\<close>. When the measurement has been built,
  it is added to the list and becomes the displayed measurement. The model changes only
  in this last case.
\<close>

theorem load_measurement_all_or_nothing:
  "(files w file_name = None \<longrightarrow>
      load_measurement c file_name w =
        (None, w\<lparr>nqrduck_signal := nqrduck_signal w @
                   [(''notification'', [''Error'', ''File not found.''])]\<rparr>)) \<and>
   (\<forall>text. files w file_name = Some text \<and>
       (json_load c text = Inl JSONDecodeError \<or>
        (\<exists>j. json_load c text = Inr j \<and> from_json c j = Inl KeyError)) \<longrightarrow>
      load_measurement c file_name w =
        (None, w\<lparr>nqrduck_signal := nqrduck_signal w @
                   [(''notification'', [''Error'', ''File is not a valid measurement file.''])]\<rparr>)) \<and>
   (\<forall>text j measurement.
      files w file_name = Some text \<and> json_load c text = Inr j \<and>
      from_json c j = Inr measurement \<longrightarrow>
      load_measurement c file_name w =
        (None, w\<lparr>model := (model w)\<lparr>measurements := measurements (model w) @ [measurement],
                                     displayed_measurement := Some measurement\<rparr>\<rparr>)) \<and>
   (model (snd (load_measurement c file_name w)) \<noteq> model w \<longrightarrow>
      (\<exists>text j measurement.
         files w file_name = Some text \<and> json_load c text = Inr j \<and>
         from_json c j = Inr measurement))"
  by (auto simp: load_measurement_def read_measurement_def emit_def add_measurement_def
           split: option.splits sum.splits error.splits)

theorem load_measurement_all_or_nothing_witness:
  "files example_world ''none.meas'' = None \<and>
   load_measurement example_codec ''none.meas'' example_world =
     (None, example_world\<lparr>nqrduck_signal := [(''notification'', [''Error'', ''File not found.''])]\<rparr>) \<and>
   files example_world ''c.meas'' = Some [] \<and> json_load example_codec [] = Inl JSONDecodeError \<and>
   load_measurement example_codec ''c.meas'' example_world =
     (None, example_world\<lparr>nqrduck_signal :=
        [(''notification'', [''Error'', ''File is not a valid measurement file.''])]\<rparr>) \<and>
   files example_world ''b.meas'' = Some ''x'' \<and> json_load example_codec ''x'' = Inr 1 \<and>
   from_json example_codec 1 = Inl KeyError \<and>
   load_measurement example_codec ''b.meas'' example_world =
     (None, example_world\<lparr>nqrduck_signal :=
        [(''notification'', [''Error'', ''File is not a valid measurement file.''])]\<rparr>) \<and>
   files example_world ''a.meas'' = Some ''xx'' \<and> json_load example_codec ''xx'' = Inr 2 \<and>
   from_json example_codec 2 = Inr 2 \<and>
   measurements (model (snd (load_measurement example_codec ''a.meas'' example_world))) = [5, 3, 2] \<and>
   displayed_measurement (model (snd (load_measurement example_codec ''a.meas'' example_world))) = Some 2 \<and>
   model (snd (load_measurement example_codec ''a.meas'' example_world)) \<noteq> model example_world"
  using load_measurement_all_or_nothing [of example_world "''none.meas''" example_codec]
        load_measurement_all_or_nothing [of example_world "''c.meas''" example_codec]
        load_measurement_all_or_nothing [of example_world "''b.meas''" example_codec]
        load_measurement_all_or_nothing [of example_world "''a.meas''" example_codec]
  by (simp add: example_world_def example_codec_def example_model_def)

section \<open>Properties of the functions\<close>

lemma evaluate_FIDFunction: "evaluate FIDFunction x = Some (exp (- x / 10))"
  by (simp add: evaluate_def FIDFunction_def add_parameter_def bindings_def)

lemma evaluate_LorentzianFunction:
  "evaluate LorentzianFunction x = Some (1 / (1 + (x / 10)\<^sup>2))"
proof -
  have "1 + (x / 10)\<^sup>2 \<noteq> 0"
    using zero_le_power2 [of "x / 10"] by linarith
  then show ?thesis
    by (simp add: evaluate_def LorentzianFunction_def add_parameter_def bindings_def)
qed

lemma FIDFunction_fields:
  "expr FIDFunction = Exp (Div (Neg (Symbol ''x'')) (Symbol ''T2star''))"
  "start_x FIDFunction = 0" "end_x FIDFunction = 30"
  "parameters FIDFunction =
     [\<lparr>parameter_name = ''T2star (microseconds)'', symbol = ''T2star'', default_value = 10\<rparr>]"
  by (simp_all add: FIDFunction_def add_parameter_def)

lemma LorentzianFunction_fields:
  "expr LorentzianFunction =
     Div (Integer 1) (Add (Integer 1) (Pow (Div (Symbol ''x'') (Symbol ''T2star'')) 2))"
  "start_x LorentzianFunction = 0" "end_x LorentzianFunction = 30"
  "parameters LorentzianFunction =
     [\<lparr>parameter_name = ''T2star (microseconds)'', symbol = ''T2star'', default_value = 10\<rparr>]"
  by (simp_all add: LorentzianFunction_def add_parameter_def)

lemma evalf_FIDFunction:
  "evalf [''x'' \<mapsto> x, ''T2star'' \<mapsto> t] (expr FIDFunction) =
     (if t = 0 then None else Some (exp (- x / t)))"
  by (simp add: FIDFunction_fields)

lemma evalf_LorentzianFunction:
  "evalf [''x'' \<mapsto> x, ''T2star'' \<mapsto> t] (expr LorentzianFunction) =
     (if t = 0 then None else Some (1 / (1 + (x / t)\<^sup>2)))"
proof -
  have "1 + (x / t)\<^sup>2 \<noteq> 0"
    using zero_le_power2 [of "x / t"] by linarith
  then show ?thesis
    by (simp add: LorentzianFunction_fields)
qed

lemma FIDFunction_well_formed:
  "free_symbols (expr FIDFunction) = insert ''x'' (symbol ` set (parameters FIDFunction)) \<and>
   ''x'' \<notin> symbol ` set (parameters FIDFunction) \<and>
   map symbol (parameters FIDFunction) = [''T2star''] \<and>
   (\<forall>p \<in> set (parameters FIDFunction). parameter_name p \<noteq> [] \<and> symbol p \<noteq> []) \<and>
   start_x FIDFunction < end_x FIDFunction"
  by (auto simp: FIDFunction_fields)

lemma LorentzianFunction_well_formed:
  "free_symbols (expr LorentzianFunction) =
     insert ''x'' (symbol ` set (parameters LorentzianFunction)) \<and>
   ''x'' \<notin> symbol ` set (parameters LorentzianFunction) \<and>
   map symbol (parameters LorentzianFunction) = [''T2star''] \<and>
   (\<forall>p \<in> set (parameters LorentzianFunction). parameter_name p \<noteq> [] \<and> symbol p \<noteq> []) \<and>
   start_x LorentzianFunction < end_x LorentzianFunction"
  by (auto simp: LorentzianFunction_fields)


lemma FIDFunction_evaluable:
  "evaluate FIDFunction x \<noteq> None \<and>
   (\<forall>t. t \<noteq> 0 \<longrightarrow> evalf [''x'' \<mapsto> x, ''T2star'' \<mapsto> t] (expr FIDFunction) \<noteq> None)"
  by (simp only: evaluate_FIDFunction evalf_FIDFunction) simp

lemma LorentzianFunction_evaluable:
  "evaluate LorentzianFunction x \<noteq> None \<and>
   (\<forall>t. t \<noteq> 0 \<longrightarrow>
      evalf [''x'' \<mapsto> x, ''T2star'' \<mapsto> t] (expr LorentzianFunction) \<noteq> None)"
  by (simp only: evaluate_LorentzianFunction evalf_LorentzianFunction) simp

text \<open>
  Claim C6, as stated, fails on evaluability. The third function the dialog offers can
  hold the user-defined expression \<^verbatim>\<open>1 / x\<close>, whose only symbol is \<open>x\<close> and which has no
  value at \<open>x = 0\<close>, a point of its interval; and \<open>FIDFunction\<close>, the first function
  offered, has no value at \<open>x = 0\<close> once its parameter \<open>T2star\<close> is set to 0.
\<close>

theorem offered_function_not_evaluable_counterexample:
  "Apodization_functions example_gaussian example_custom ! 2 = example_custom \<and>
   free_symbols (expr example_custom) = {''x''} \<and>
   start_x example_custom \<le> 0 \<and> 0 \<le> end_x example_custom \<and>
   evaluate example_custom 0 = None \<and>
   Apodization_functions example_gaussian example_custom ! 0 = FIDFunction \<and>
   start_x FIDFunction \<le> 0 \<and> 0 \<le> end_x FIDFunction \<and>
   evalf [''x'' \<mapsto> 0, ''T2star'' \<mapsto> 0] (expr FIDFunction) = None"
  by (simp add: Apodization_functions_def example_custom_def evaluate_def bindings_def
        FIDFunction_fields)

text \<open>
  Claim C6, amended. Each of the two function classes of the repository, \<open>FIDFunction\<close>
  and \<open>LorentzianFunction\<close>, is an expression whose symbols are the free variable \<open>x\<close> and
  the symbol \<open>T2star\<close> of its one parameter, \<open>x\<close> not being a parameter; the parameter has
  a display name and a symbol (and, by its type, a value); \<open>start_x\<close> lies below \<open>end_x\<close>;
  and at every point from \<open>start_x\<close> to \<open>end_x\<close> the function has a value, with the
  parameter's own value and with any other value of \<open>T2star\<close> that is not 0.
\<close>

theorem repository_functions_well_formed:
  "\<forall>f \<in> {FIDFunction, LorentzianFunction}.
     free_symbols (expr f) = insert ''x'' (symbol ` set (parameters f)) \<and>
     ''x'' \<notin> symbol ` set (parameters f) \<and>
     map symbol (parameters f) = [''T2star''] \<and>
     (\<forall>p \<in> set (parameters f). parameter_name p \<noteq> [] \<and> symbol p \<noteq> []) \<and>
     start_x f < end_x f \<and>
     (\<forall>x \<in> {start_x f .. end_x f}.
        evaluate f x \<noteq> None \<and>
        (\<forall>t. t \<noteq> 0 \<longrightarrow> evalf [''x'' \<mapsto> x, ''T2star'' \<mapsto> t] (expr f) \<noteq> None))"
proof
  fix f
  assume "f \<in> {FIDFunction, LorentzianFunction}"
  then have "f = FIDFunction \<or> f = LorentzianFunction"
    by simp
  then show
    "free_symbols (expr f) = insert ''x'' (symbol ` set (parameters f)) \<and>
     ''x'' \<notin> symbol ` set (parameters f) \<and>
     map symbol (parameters f) = [''T2star''] \<and>
     (\<forall>p \<in> set (parameters f). parameter_name p \<noteq> [] \<and> symbol p \<noteq> []) \<and>
     start_x f < end_x f \<and>
     (\<forall>x \<in> {start_x f .. end_x f}.
        evaluate f x \<noteq> None \<and>
        (\<forall>t. t \<noteq> 0 \<longrightarrow> evalf [''x'' \<mapsto> x, ''T2star'' \<mapsto> t] (expr f) \<noteq> None))"
  proof
    assume f: "f = FIDFunction"
    show ?thesis
      unfolding f
      using FIDFunction_well_formed FIDFunction_evaluable
      by simp
  next
    assume f: "f = LorentzianFunction"
    show ?thesis
      unfolding f
      using LorentzianFunction_well_formed LorentzianFunction_evaluable
      by simp
  qed
qed

theorem repository_functions_well_formed_witness:
  "LorentzianFunction \<in> {FIDFunction, LorentzianFunction} \<and>
   (10::real) \<in> {start_x LorentzianFunction .. end_x LorentzianFunction} \<and>
   (5::real) \<noteq> 0 \<and>
   free_symbols (expr LorentzianFunction) =
     insert ''x'' (symbol ` set (parameters LorentzianFunction)) \<and>
   map symbol (parameters LorentzianFunction) = [''T2star''] \<and>
   evaluate LorentzianFunction 10 \<noteq> None \<and>
   evalf [''x'' \<mapsto> 10, ''T2star'' \<mapsto> 5] (expr LorentzianFunction) \<noteq> None"
proof -
  have mem: "LorentzianFunction \<in> {FIDFunction, LorentzianFunction}"
    by simp
  have pt: "(10::real) \<in> {start_x LorentzianFunction .. end_x LorentzianFunction}"
    by (simp add: LorentzianFunction_fields)
  have nz: "(5::real) \<noteq> 0"
    by simp
  note wf = bspec [OF repository_functions_well_formed mem]
  note syms = conjunct1 [OF wf]
  note params = conjunct1 [OF conjunct2 [OF conjunct2 [OF wf]]]
  note ev = bspec [OF conjunct2 [OF conjunct2 [OF conjunct2 [OF conjunct2 [OF conjunct2 [OF wf]]]]] pt]
  note ev_default = conjunct1 [OF ev]
  note ev_five = mp [OF spec [OF conjunct2 [OF ev], of 5] nz]
  from mem pt nz syms params ev_default ev_five show ?thesis
    by (intro conjI)
qed

text \<open>
  Claim C7. The function preselected in the apodization dialog is \<open>FIDFunction\<close>. Its
  expression is \<open>exp (- x / T2star)\<close>, with the single parameter \<open>T2star\<close> of value 10,
  from \<open>x = 0\<close> to \<open>x = 30\<close>. For any non-zero value \<open>t\<close> of the parameter its value at \<open>x\<close>
  is \<open>exp (- x / t)\<close>, with the parameter's own value it is \<open>exp (- x / 10)\<close>, and it decays:
  a later point has a smaller value.
\<close>

theorem FIDFunction_decaying_exponential:
  "Apodization_functions g c ! default_function = FIDFunction \<and>
   expr FIDFunction = Exp (Div (Neg (Symbol ''x'')) (Symbol ''T2star'')) \<and>
   map symbol (parameters FIDFunction) = [''T2star''] \<and>
   map default_value (parameters FIDFunction) = [10] \<and>
   start_x FIDFunction = 0 \<and> end_x FIDFunction = 30 \<and>
   evalf [''x'' \<mapsto> x, ''T2star'' \<mapsto> t] (expr FIDFunction) =
     (if t = 0 then None else Some (exp (- x / t))) \<and>
   evaluate FIDFunction x = Some (exp (- x / 10)) \<and>
   (\<forall>u v. u < v \<longrightarrow> the (evaluate FIDFunction v) < the (evaluate FIDFunction u))"
  by (simp add: evaluate_FIDFunction Apodization_functions_def default_function_def)
     (simp add: FIDFunction_def add_parameter_def)

theorem FIDFunction_decaying_exponential_witness:
  "(0::real) < 30 \<and> the (evaluate FIDFunction 30) < the (evaluate FIDFunction 0) \<and>
   evaluate FIDFunction 0 = Some 1"
proof -
  note fid = FIDFunction_decaying_exponential [of FIDFunction FIDFunction 0 1]
  from fid have decay:
    "\<forall>u v. u < v \<longrightarrow> the (evaluate FIDFunction v) < the (evaluate FIDFunction u)"
    by blast
  from fid have at_zero: "evaluate FIDFunction 0 = Some 1"
    by simp
  have "(0::real) < 30" by simp
  with decay have "the (evaluate FIDFunction 30) < the (evaluate FIDFunction 0)"
    by blast
  with at_zero show ?thesis by simp
qed

end
